theory Spec2Isabelle
  imports Main "HOL-Library.Sublist" "HOL-Library.AList" "HOL-Library.Char_ord"
    "HOL-Library.List_Lexorder"
begin

section \<open>JavaScript values and errors\<close>

text \<open>
  The values the service worker stores and renders: \<open>undefined\<close>, \<open>null\<close>, booleans,
  strings and plain objects.  An object is the list of its own enumerable properties in
  enumeration order (what a structured clone keeps of it).  Strings are lists of
  characters; the program only compares, splits and concatenates them.
\<close>

datatype jsval =
    JUndefined
  | JNull
  | JBool bool
  | JStr string
  | JObj "(string \<times> jsval) list"

text \<open>
  Every \<open>throw\<close> and every rejected promise is a value: \<open>TypeError\<close> and \<open>RangeError\<close> for
  the errors of the language and the platform, \<open>DataError\<close> for an invalid IndexedDB key,
  \<open>TransactionError\<close> for a transaction that aborts, \<open>NetworkError\<close> for a failed \<open>fetch\<close>,
  \<open>Thrown\<close> for what an updater throws itself.
\<close>

datatype error =
  TypeError | RangeError | DataError | TransactionError | NetworkError | Thrown string

fun bindE :: "error + 'a \<Rightarrow> ('a \<Rightarrow> error + 'b) \<Rightarrow> error + 'b" where
  "bindE (Inl e) f = Inl e"
| "bindE (Inr x) f = f x"

abbreviation nl :: char where "nl \<equiv> CHR 0x0A"
abbreviation dq :: char where "dq \<equiv> CHR 0x22"
abbreviation sq :: char where "sq \<equiv> CHR 0x27"
abbreviation bt :: char where "bt \<equiv> CHR 0x60"

text \<open>Decimal numerals, for the index keys of a spread string.\<close>

fun digit_char :: "nat \<Rightarrow> char" where
  "digit_char n = char_of (48 + n mod 10)"

fun decimal :: "nat \<Rightarrow> string" where
  "decimal n = (if n < 10 then [digit_char n] else decimal (n div 10) @ [digit_char n])"

text \<open>
  \<open>{...v}\<close>: the own enumerable properties of \<open>v\<close>.  \<open>undefined\<close>, \<open>null\<close> and booleans have
  none, a string has one per character, keyed by its index, an object has its own.
\<close>

fun own_props :: "jsval \<Rightarrow> (string \<times> jsval) list" where
  "own_props (JObj ps) = ps"
| "own_props (JStr s) = map (\<lambda>i. (decimal i, JStr [s ! i])) [0..<length s]"
| "own_props _ = []"

text \<open>\<open>o.k\<close> on an object: the value of the property, \<open>undefined\<close> when there is none.\<close>

definition get_prop :: "(string \<times> jsval) list \<Rightarrow> string \<Rightarrow> jsval" where
  "get_prop ps k = (case map_of ps k of None \<Rightarrow> JUndefined | Some v \<Rightarrow> v)"

text \<open>Truthiness, as the conditional operator sees it.\<close>

fun truthy :: "jsval \<Rightarrow> bool" where
  "truthy JUndefined = False"
| "truthy JNull = False"
| "truthy (JBool b) = b"
| "truthy (JStr s) = (s \<noteq> [])"
| "truthy (JObj ps) = True"

text \<open>
  \<open>${v}\<close> in a template literal.  A plain object prints through \<open>Object.prototype.toString\<close>;
  one whose own property \<open>toString\<close> shadows it (a cloned value is never callable) has no
  primitive value, which is a \<open>TypeError\<close>.
\<close>

fun to_string :: "jsval \<Rightarrow> error + string" where
  "to_string JUndefined = Inr ''undefined''"
| "to_string JNull = Inr ''null''"
| "to_string (JBool b) = Inr (if b then ''true'' else ''false'')"
| "to_string (JStr s) = Inr s"
| "to_string (JObj ps) =
     (if ''toString'' \<in> fst ` set ps then Inl TypeError else Inr ''[object Object]'')"

section \<open>The todo domain\<close>

text \<open>
  \<open>createTodo(title)\<close>; the identifier that \<open>self.crypto.randomUUID()\<close> draws is a parameter.
\<close>

definition createTodo :: "string \<Rightarrow> string \<Rightarrow> string \<times> jsval" where
  "createTodo uuid title =
     (let ident = uuid in
      (ident,
       JObj [(''id'', JStr ident), (''title'', JStr title), (''completed'', JBool False)]))"

text \<open>
  \<open>completeTodo(todo) = { ...todo, completed: true }\<close>: a new object with the properties of
  \<open>todo\<close>, then \<open>completed\<close> set (in place when \<open>todo\<close> has it, appended otherwise).
\<close>

definition completeTodo :: "jsval \<Rightarrow> jsval" where
  "completeTodo todo = JObj (AList.update ''completed'' (JBool True) (own_props todo))"

text \<open>
  The same function on a heap of objects, where a reference is an index: the object literal
  allocates a new object and nothing is written through the reference \<open>todo\<close>.
\<close>

definition completeTodo_heap :: "jsval list \<Rightarrow> nat \<Rightarrow> jsval list \<times> nat" where
  "completeTodo_heap heap todo = (heap @ [completeTodo (heap ! todo)], length heap)"

section \<open>Escaping\<close>

definition ENTITY_MAP :: "(char \<times> string) list" where
  "ENTITY_MAP =
     [(CHR ''&'', ''&amp;''),
      (CHR ''<'', ''&lt;''),
      (CHR ''>'', ''&gt;''),
      (dq, ''&quot;''),
      (sq, ''&#39;''),
      (CHR ''/'', ''&#x2F;''),
      (bt, ''&#x60;''),
      (CHR ''='', ''&#x3D;'')]"

text \<open>The character class of the regular expression \<open>/[&<>"'`=\/]/g\<close>.\<close>

definition escape_class :: "char list" where
  "escape_class = [CHR ''&'', CHR ''<'', CHR ''>'', dq, sq, bt, CHR ''='', CHR ''/'']"

text \<open>
  The replacement callback \<open>s => ENTITY_MAP[s]\<close>; a missing entry would print as
  \<open>undefined\<close>.
\<close>

definition entity_of :: "char \<Rightarrow> string" where
  "entity_of c = (case map_of ENTITY_MAP c of None \<Rightarrow> ''undefined'' | Some r \<Rightarrow> r)"

definition escape_char :: "char \<Rightarrow> string" where
  "escape_char c = (if c \<in> set escape_class then entity_of c else [c])"

text \<open>\<open>unsafe.replace(/[...]/g, ...)\<close>: every match is replaced, everything else is kept.\<close>

definition escapeHtml :: "string \<Rightarrow> string" where
  "escapeHtml unsafe = concat (map escape_char unsafe)"

section \<open>Rendering and splicing\<close>

text \<open>
  \<open>list(id, title, completed)\<close>, with \<open>ident\<close> for the parameter \<open>id\<close>.  The template
  literals convert \<open>title\<close> and \<open>id\<close> to strings in the order they occur.
\<close>

definition list_html :: "jsval \<Rightarrow> jsval \<Rightarrow> jsval \<Rightarrow> error + string" where
  "list_html ident title completed =
     bindE
       (if truthy completed
        then bindE (to_string title) (\<lambda>t. bindE (to_string ident) (\<lambda>i.
               Inr (''<s>'' @ t @ ''</s> <a href='' @ [dq] @ ''/delete?id='' @ i @ [dq]
                    @ ''>Delete</a>'')))
        else bindE (to_string ident) (\<lambda>i. bindE (to_string title) (\<lambda>t. bindE (to_string ident) (\<lambda>j.
               Inr (''<a href='' @ [dq] @ ''/complete?id='' @ i @ [dq] @ ''>Complete</a> '' @ t
                    @ '' <a href='' @ [dq] @ ''/delete?id='' @ j @ [dq] @ ''>Delete</a>'')))))
       (\<lambda>inner. Inr ([nl] @ ''    <li>'' @ [nl] @ ''      '' @ inner @ [nl] @ ''    </li>''
                     @ [nl] @ ''  ''))"

text \<open>
  The parameter pattern \<open>{ id, title, completed }\<close>: destructuring \<open>undefined\<close> or \<open>null\<close> throws,
  any other value yields its three properties (\<open>undefined\<close> where it has none).
\<close>

fun destructure_todo :: "jsval \<Rightarrow> error + jsval \<times> jsval \<times> jsval" where
  "destructure_todo JUndefined = Inl TypeError"
| "destructure_todo JNull = Inl TypeError"
| "destructure_todo v =
     Inr (get_prop (own_props v) ''id'', get_prop (own_props v) ''title'',
          get_prop (own_props v) ''completed'')"

text \<open>\<open>Array.prototype.map\<close> with a callback that may throw: the first throw ends it.\<close>

fun mapE :: "('a \<Rightarrow> error + 'b) \<Rightarrow> 'a list \<Rightarrow> error + 'b list" where
  "mapE f [] = Inr []"
| "mapE f (x # xs) = bindE (f x) (\<lambda>y. bindE (mapE f xs) (\<lambda>ys. Inr (y # ys)))"

definition generateTodos :: "jsval list \<Rightarrow> error + string" where
  "generateTodos data =
     bindE
       (mapE (\<lambda>item. bindE (destructure_todo item)
                (\<lambda>(ident, title, completed). list_html ident title completed)) data)
       (\<lambda>items. Inr ([nl] @ ''    <ul slot='' @ [dq] @ ''todo-list'' @ [dq] @ ''>'' @ [nl]
                     @ ''      '' @ concat items @ [nl] @ ''    </ul>'' @ [nl] @ ''  ''))"

text \<open>
  \<open>s.split(sep)\<close> with a string separator: the pieces between the occurrences of \<open>sep\<close>, found
  from the left without overlap.  \<open>split_from\<close> scans \<open>s\<close> for a non-empty \<open>sep\<close>, with \<open>acc\<close>
  the piece read so far; an empty separator splits into characters.
\<close>

fun split_from :: "string \<Rightarrow> string \<Rightarrow> string \<Rightarrow> string list" where
  "split_from sep acc [] = [acc]"
| "split_from sep acc (c # cs) =
     (if prefix sep (c # cs) then acc # split_from sep [] (drop (length sep - 1) cs)
      else split_from sep (acc @ [c]) cs)"

definition split_js :: "string \<Rightarrow> string \<Rightarrow> string list" where
  "split_js sep s = (if sep = [] then map (\<lambda>c. [c]) s else split_from sep [] s)"

text \<open>
  An element of the array pattern \<open>[head, tail]\<close> as the template literal prints it: a
  missing element is \<open>undefined\<close>.
\<close>

definition piece :: "string list \<Rightarrow> nat \<Rightarrow> string" where
  "piece parts i = (if i < length parts then parts ! i else ''undefined'')"

definition lazyBoundary :: string where
  "lazyBoundary = ''<!-- lazy -->''"

text \<open>
  \<open>spliceResponseWithData(cachedContent, data)\<close>; \<open>data\<close> is \<open>None\<close> when it is \<open>undefined\<close> or
  \<open>null\<close>, the values \<open>!data\<close> holds for (an array, empty or not, is truthy).
\<close>

definition spliceResponseWithData :: "string \<Rightarrow> jsval list option \<Rightarrow> error + string" where
  "spliceResponseWithData cachedContent data =
     (case data of
        None \<Rightarrow> Inr cachedContent
      | Some items \<Rightarrow>
          (let parts = split_js lazyBoundary cachedContent;
               head = piece parts 0;
               tail = piece parts 1
           in bindE (generateTodos items) (\<lambda>todos.
                Inr ([nl] @ ''    '' @ head @ [nl] @ ''    '' @ todos @ [nl] @ ''    '' @ tail
                     @ [nl] @ ''  ''))))"

section \<open>The key-value store\<close>

text \<open>
  The object store \<open>todos\<close>: its records in ascending key order, the order in which
  \<open>getAllKeys\<close> and \<open>getAll\<close> enumerate them.  A key is \<open>None\<close> when it is \<open>null\<close> (what
  \<open>searchParams.get\<close> returns for a missing parameter), which is not a valid key.
  Whether the transaction of a writing operation commits is the environment's choice,
  the parameter \<open>commits\<close>.
\<close>

type_synonym object_store = "(string \<times> jsval) list"

fun store_put :: "string \<Rightarrow> jsval \<Rightarrow> object_store \<Rightarrow> object_store" where
  "store_put k v [] = [(k, v)]"
| "store_put k v ((k', v') # rest) =
     (if k = k' then (k, v) # rest
      else if k < k' then (k, v) # (k', v') # rest
      else (k', v') # store_put k v rest)"

definition store_get :: "string \<Rightarrow> object_store \<Rightarrow> jsval" where
  "store_get k st = (case map_of st k of None \<Rightarrow> JUndefined | Some v \<Rightarrow> v)"

definition store_delete :: "string \<Rightarrow> object_store \<Rightarrow> object_store" where
  "store_delete k st = filter (\<lambda>p. fst p \<noteq> k) st"

definition set_db ::
  "string option \<Rightarrow> jsval \<Rightarrow> bool \<Rightarrow> object_store \<Rightarrow> (error + unit) \<times> object_store" where
  "set_db key val commits st =
     (case key of
        None \<Rightarrow> (Inl DataError, st)
      | Some k \<Rightarrow> if commits then (Inr (), store_put k val st) else (Inl TransactionError, st))"

definition get_db :: "string option \<Rightarrow> object_store \<Rightarrow> error + jsval" where
  "get_db key st = (case key of None \<Rightarrow> Inl DataError | Some k \<Rightarrow> Inr (store_get k st))"

text \<open>
  \<open>update(key, updater)\<close>: the value read is passed to \<open>updater\<close>; when it throws, the
  \<open>catch\<close> rejects before any \<open>put\<close>, otherwise the result is put and the promise settles
  with the transaction.
\<close>

definition update_db ::
  "string option \<Rightarrow> (jsval \<Rightarrow> error + jsval) \<Rightarrow> bool \<Rightarrow> object_store
     \<Rightarrow> (error + unit) \<times> object_store" where
  "update_db key updater commits st =
     (case key of
        None \<Rightarrow> (Inl DataError, st)
      | Some k \<Rightarrow>
          (case updater (store_get k st) of
             Inl err \<Rightarrow> (Inl err, st)
           | Inr v \<Rightarrow>
               if commits then (Inr (), store_put k v st) else (Inl TransactionError, st)))"

definition del ::
  "string option \<Rightarrow> bool \<Rightarrow> object_store \<Rightarrow> (error + unit) \<times> object_store" where
  "del key commits st =
     (case key of
        None \<Rightarrow> (Inl DataError, st)
      | Some k \<Rightarrow> if commits then (Inr (), store_delete k st) else (Inl TransactionError, st))"

definition entries :: "object_store \<Rightarrow> (string \<times> jsval) list" where
  "entries st = map (\<lambda>(key, idx). (key, map snd st ! idx)) (zip (map fst st) [0..<length st])"

section \<open>The versioned asset cache\<close>

definition VERSION :: string where
  "VERSION = ''0.0.1''"

definition STATIC_CACHE_NAME :: string where
  "STATIC_CACHE_NAME = ''static-cache_'' @ VERSION"

definition assets :: "string list" where
  "assets = [''/'', ''/index.html'', ''/main.js'']"

text \<open>
  A request as the worker reads it: its method, \<open>url.pathname\<close>, the entries of
  \<open>url.searchParams\<close>, the entries of \<open>new URLSearchParams(text)\<close> for its body, and its
  headers.  Header lists have one entry for each name, the name in lower case, as a
  \<open>Headers\<close> object shows them.
\<close>

record request =
  req_method :: string
  pathname :: string
  searchParams :: "(string \<times> string) list"
  body_params :: "(string \<times> string) list"
  req_headers :: "(string \<times> string) list"

record response =
  status :: nat
  statusText :: string
  headers :: "(string \<times> string) list"
  body :: string

text \<open>
  The field names of a \<open>Vary\<close> header: the value split at the commas, each piece without the
  spaces and tabs around it, in lower case.
\<close>

definition lower_char :: "char \<Rightarrow> char" where
  "lower_char c =
     (if CHR ''A'' \<le> c \<and> c \<le> CHR ''Z'' then char_of (of_char c + (32 :: nat)) else c)"

definition http_space :: "char \<Rightarrow> bool" where
  "http_space c = (c = CHR '' '' \<or> c = CHR 0x09)"

definition trim :: "string \<Rightarrow> string" where
  "trim s = rev (dropWhile http_space (rev (dropWhile http_space s)))"

definition vary_fields :: "(string \<times> string) list \<Rightarrow> string list" where
  "vary_fields hs =
     (case map_of hs ''vary'' of
        None \<Rightarrow> []
      | Some v \<Rightarrow> map (\<lambda>f. map lower_char (trim f)) (split_js '','' v))"

text \<open>
  A cache holds pairs of a request and the response stored for it.  A request matches a
  pair when it is a \<open>GET\<close>, has the URL of the stored request, and agrees with the stored
  request on every header the stored response varies on; no request matches a response
  that varies on \<open>*\<close>.
\<close>

type_synonym cache = "(request \<times> response) list"

definition request_matches :: "request \<Rightarrow> request \<times> response \<Rightarrow> bool" where
  "request_matches q entry =
     (case entry of
        (cachedRequest, cachedResponse) \<Rightarrow>
          req_method q = ''GET''
          \<and> pathname q = pathname cachedRequest
          \<and> searchParams q = searchParams cachedRequest
          \<and> list_all
               (\<lambda>f. f \<noteq> ''*''
                    \<and> map_of (req_headers q) f = map_of (req_headers cachedRequest) f)
               (vary_fields (headers cachedResponse)))"

definition cache_match :: "cache \<Rightarrow> request \<Rightarrow> response option" where
  "cache_match c q = map_option snd (find (request_matches q) c)"

text \<open>
  \<open>cache.put(request, response)\<close> rejects a request that is not a \<open>GET\<close>, a response with
  status 206 and a response that varies on \<open>*\<close>; otherwise the pairs the request matches
  are removed and the new pair is added.
\<close>

definition cache_put :: "request \<Rightarrow> response \<Rightarrow> cache \<Rightarrow> error + cache" where
  "cache_put r res c =
     (if req_method r \<noteq> ''GET'' then Inl TypeError
      else if status res = 206 then Inl TypeError
      else if ''*'' \<in> set (vary_fields (headers res)) then Inl TypeError
      else Inr (filter (\<lambda>entry. \<not> request_matches r entry) c @ [(r, res)]))"

text \<open>\<open>CacheStorage\<close>: the named caches in the order they were created.\<close>

type_synonym cache_storage = "(string \<times> cache) list"

text \<open>\<open>caches.match\<close> asks every cache in turn and answers with the first match.\<close>

fun caches_match :: "cache_storage \<Rightarrow> request \<Rightarrow> response option" where
  "caches_match [] q = None"
| "caches_match ((name, c) # rest) q =
     (case cache_match c q of Some r \<Rightarrow> Some r | None \<Rightarrow> caches_match rest q)"

definition caches_keys :: "cache_storage \<Rightarrow> string list" where
  "caches_keys cs = map fst cs"

definition caches_open :: "string \<Rightarrow> cache_storage \<Rightarrow> cache_storage" where
  "caches_open name cs = (if name \<in> set (caches_keys cs) then cs else cs @ [(name, [])])"

definition caches_delete :: "string \<Rightarrow> cache_storage \<Rightarrow> cache_storage" where
  "caches_delete name cs = filter (\<lambda>p. fst p \<noteq> name) cs"

text \<open>
  The state the worker acts on: the object store, the cache storage, and the log of the
  requests sent to the network.  The environment decides what the network answers, whether
  a transaction commits, and which identifier \<open>randomUUID\<close> draws.
\<close>

record world =
  db :: object_store
  caches :: cache_storage
  fetched :: "request list"

record env =
  network :: "request \<Rightarrow> error + response"
  tx_commits :: bool
  randomUUID :: string

definition cleanCache :: "world \<Rightarrow> (error + unit) \<times> world" where
  "cleanCache w =
     (let keys = caches_keys (caches w)
      in (Inr (),
          w\<lparr>caches := fold caches_delete (filter (\<lambda>key. key \<noteq> STATIC_CACHE_NAME) keys)
                          (caches w)\<rparr>))"

text \<open>
  \<open>respondWithCache(request)\<close>.  The promise of \<open>cache.put\<close> is not awaited: when the put is
  rejected the cache stays as \<open>caches.open\<close> left it and the rejection reaches nobody.
\<close>

definition respondWithCache :: "env \<Rightarrow> request \<Rightarrow> world \<Rightarrow> (error + response) \<times> world" where
  "respondWithCache e request w =
     (case caches_match (caches w) request of
        Some cacheRes \<Rightarrow> (Inr cacheRes, w)
      | None \<Rightarrow>
          (case network e request of
             Inl err \<Rightarrow> (Inl err, w\<lparr>fetched := fetched w @ [request]\<rparr>)
           | Inr fetchRes \<Rightarrow>
               (Inr fetchRes,
                w\<lparr>fetched := fetched w @ [request],
                  caches :=
                    AList.map_entry STATIC_CACHE_NAME
                      (\<lambda>cache. case cache_put request fetchRes cache of
                                  Inl err \<Rightarrow> cache
                                | Inr cache' \<Rightarrow> cache')
                      (caches_open STATIC_CACHE_NAME (caches w))\<rparr>)))"

text \<open>
  \<open>new Response(body, { status, statusText, headers })\<close> with a string for the body: the
  status must lie in 200..599 (\<open>RangeError\<close>), the status text must be a reason phrase, and
  a status that allows no body (101, 103, 204, 205, 304) is a \<open>TypeError\<close>.  The headers
  are copied without \<open>set-cookie\<close> and \<open>set-cookie2\<close>, and a string body brings its content
  type when they name none.
\<close>

definition reason_phrase_char :: "char \<Rightarrow> bool" where
  "reason_phrase_char c =
     (c = CHR 0x09 \<or> (32 \<le> (of_char c :: nat) \<and> (of_char c :: nat) \<noteq> 127))"

definition new_Response ::
  "string \<Rightarrow> nat \<Rightarrow> string \<Rightarrow> (string \<times> string) list \<Rightarrow> error + response" where
  "new_Response newBody st stText hs =
     (if st < 200 \<or> 599 < st then Inl RangeError
      else if \<not> list_all reason_phrase_char stText then Inl TypeError
      else if st \<in> {101, 103, 204, 205, 304} then Inl TypeError
      else
        (let copied = filter (\<lambda>h. fst h \<noteq> ''set-cookie'' \<and> fst h \<noteq> ''set-cookie2'') hs
         in Inr \<lparr>status = st, statusText = stText,
                 headers =
                   (if ''content-type'' \<in> fst ` set copied then copied
                    else copied @ [(''content-type'', ''text/plain;charset=UTF-8'')]),
                 body = newBody\<rparr>))"

text \<open>
  \<open>respondWithSpliced()\<close>: \<open>caches.match("/")\<close> is a \<open>GET\<close> of the root with no headers; without
  a match \<open>res.clone()\<close> throws.
\<close>

definition respondWithSpliced :: "world \<Rightarrow> error + response" where
  "respondWithSpliced w =
     (case caches_match (caches w)
             \<lparr>req_method = ''GET'', pathname = ''/'', searchParams = [], body_params = [],
               req_headers = []\<rparr> of
        None \<Rightarrow> Inl TypeError
      | Some res \<Rightarrow>
          (let originalBody = body res;
               allEntries = entries (db w);
               data = map (\<lambda>(_, todoItem). todoItem) allEntries
           in bindE (spliceResponseWithData originalBody (Some data)) (\<lambda>newBody.
                new_Response newBody (status res) (statusText res) (headers res))))"

text \<open>
  \<open>Response.redirect(path, 303)\<close>: an empty response with the status and the location, kept
  here as the path given (the platform resolves it against the worker's origin).
\<close>

definition redirect :: "string \<Rightarrow> error + response" where
  "redirect path =
     Inr \<lparr>status = 303, statusText = [], headers = [(''location'', path)], body = []\<rparr>"

section \<open>Lifecycle and routing\<close>

text \<open>
  What a listener hands to \<open>e.waitUntil\<close>: a promise, whose call has already run and has the
  given outcome and effect, or a function.  A function is not a promise; \<open>waitUntil\<close> wraps
  it in a promise that is already fulfilled and never calls it.
\<close>

datatype waitable =
    Promise "(error + unit) \<times> world"
  | Function "world \<Rightarrow> (error + unit) \<times> world"

fun waitUntil :: "waitable \<Rightarrow> world \<Rightarrow> (error + unit) \<times> world" where
  "waitUntil (Promise (r, w')) w = (r, w')"
| "waitUntil (Function f) w = (Inr (), w)"

text \<open>\<open>self.clients.claim()\<close> changes nothing of the state modelled here.\<close>

definition clients_claim :: "world \<Rightarrow> (error + unit) \<times> world" where
  "clients_claim w = (Inr (), w)"

text \<open>
  The \<open>activate\<close> listener passes the arrow function
  \<open>async () => { await cleanCache(); await self.clients.claim(); }\<close> itself.
\<close>

definition activate_listener :: "world \<Rightarrow> (error + unit) \<times> world" where
  "activate_listener w =
     waitUntil
       (Function (\<lambda>w. case cleanCache w of
                         (Inl err, w') \<Rightarrow> (Inl err, w')
                       | (Inr _, w') \<Rightarrow> clients_claim w'))
       w"

text \<open>
  The promise chain of the \<open>/create\<close> branch.  \<open>([title, _]) => title\<close> takes the first entry
  of the parameters (\<open>undefined\<close> when there is none); \<open>([, value]) => escapeHtml(value)\<close>
  takes the value of that entry and throws on \<open>undefined\<close>.
\<close>

definition create_chain ::
  "(string \<times> string) list \<Rightarrow> string \<Rightarrow> bool \<Rightarrow> object_store \<Rightarrow> (error + unit) \<times> object_store" where
  "create_chain params uuid commits st =
     (case params of
        [] \<Rightarrow> (Inl TypeError, st)
      | title # _ \<Rightarrow>
          (let value = escapeHtml (snd title);
               (ident, todo) = createTodo uuid value
           in set_db (Some ident) todo commits st))"

text \<open>
  What the \<open>fetch\<close> listener does with the event: the response given to \<open>e.respondWith\<close>
  (\<open>None\<close> when no branch responds and the request goes to the network by default) and the
  outcome of the promise given to \<open>e.waitUntil\<close>.
\<close>

record handled =
  responded :: "(error + response) option"
  waited :: "(error + unit) option"

definition fetch_listener :: "env \<Rightarrow> request \<Rightarrow> world \<Rightarrow> handled \<times> world" where
  "fetch_listener e request w =
     (let path = pathname request in
      if path = ''/'' \<or> path = ''/index.html'' then
        (\<lparr>responded = Some (respondWithSpliced w), waited = None\<rparr>, w)
      else if path = ''/create'' then
        (let (r, w') = waitUntil (Promise
                (case create_chain (body_params request) (randomUUID e) (tx_commits e) (db w) of
                   (r, st) \<Rightarrow> (r, w\<lparr>db := st\<rparr>))) w
         in (\<lparr>responded = Some (redirect ''/''), waited = Some r\<rparr>, w'))
      else if path = ''/delete'' then
        (let ident = map_of (searchParams request) ''id'';
             (r, w') = waitUntil (Promise
                (case del ident (tx_commits e) (db w) of (r, st) \<Rightarrow> (r, w\<lparr>db := st\<rparr>))) w
         in (\<lparr>responded = Some (redirect ''/''), waited = Some r\<rparr>, w'))
      else if path = ''/complete'' then
        (let ident = map_of (searchParams request) ''id'';
             (r, w') = waitUntil (Promise
                (case update_db ident (\<lambda>todo. Inr (completeTodo todo)) (tx_commits e) (db w) of
                   (r, st) \<Rightarrow> (r, w\<lparr>db := st\<rparr>))) w
         in (\<lparr>responded = Some (redirect ''/''), waited = Some r\<rparr>, w'))
      else if path \<in> set assets then
        (case respondWithCache e request w of
           (r, w') \<Rightarrow> (\<lparr>responded = Some r, waited = None\<rparr>, w'))
      else (\<lparr>responded = None, waited = None\<rparr>, w))"

section \<open>Facts about the store and the caches\<close>

lemma map_of_store_put: "map_of (store_put k v st) = (map_of st)(k \<mapsto> v)"
  by (induction st) (auto simp: fun_eq_iff)

lemma store_get_store_put:
  "store_get j (store_put k v st) = (if j = k then v else store_get j st)"
  by (simp add: store_get_def map_of_store_put)

lemma store_put_changes: "map_of st k = None \<Longrightarrow> store_put k v st \<noteq> st"
proof
  assume absent: "map_of st k = None" and same: "store_put k v st = st"
  have "map_of (store_put k v st) k = Some v" by (simp add: map_of_store_put)
  with absent same show False by simp
qed

lemma update_twice: "AList.update k v (AList.update k v al) = AList.update k v al"
  by (induction al) auto

section \<open>The transactional store\<close>

text \<open>
  C1.  When the updater throws on the value stored under \<open>k\<close> (\<open>undefined\<close> when there is
  none), \<open>update(k, updater)\<close> is rejected with what was thrown, and the object store is
  exactly what it was: nothing is written under \<open>k\<close> or any other key, whether or not the
  transaction would have committed.
\<close>

theorem update_throwing_updater_fails_unchanged:
  "updater (store_get k st) = Inl err \<Longrightarrow>
   update_db (Some k) updater commits st = (Inl err, st)"
  by (simp add: update_db_def)

theorem update_throwing_updater_fails_unchanged_witness:
  "(\<lambda>v. if v = JUndefined then Inl (Thrown ''missing'') else Inr (completeTodo v))
       (store_get ''b'' [(''a'', JBool False)]) = Inl (Thrown ''missing'')
   \<and> update_db (Some ''b'')
         (\<lambda>v. if v = JUndefined then Inl (Thrown ''missing'') else Inr (completeTodo v))
         True [(''a'', JBool False)]
       = (Inl (Thrown ''missing''), [(''a'', JBool False)])"
proof -
  let ?f = "\<lambda>v. if v = JUndefined then Inl (Thrown ''missing'') else Inr (completeTodo v)"
  have h: "?f (store_get ''b'' [(''a'', JBool False)]) = Inl (Thrown ''missing'')"
    by (simp add: store_get_def)
  from update_throwing_updater_fails_unchanged [of ?f "''b''" "[(''a'', JBool False)]", OF h]
  show ?thesis using h by simp
qed

section \<open>Completing a todo\<close>

text \<open>
  C8.  \<open>completeTodo(e)\<close> has \<open>completed = true\<close> and, for every other field \<open>f\<close>, exactly what
  \<open>e\<close> has under \<open>f\<close> (the same value, or no such field).  It is a new object: on a heap, the
  result is a fresh reference and every object that existed, \<open>e\<close> included, is what it was.
  Completing twice is completing once.
\<close>

theorem completeTodo_new_record_idempotent:
  "map_of (own_props (completeTodo e)) ''completed'' = Some (JBool True)
   \<and> (f \<noteq> ''completed'' \<longrightarrow>
        map_of (own_props (completeTodo e)) f = map_of (own_props e) f)
   \<and> (todo < length heap \<longrightarrow>
        (case completeTodo_heap heap todo of
           (heap', r) \<Rightarrow>
             take (length heap) heap' = heap \<and> heap' ! todo = heap ! todo
             \<and> r = length heap \<and> heap' ! r = completeTodo (heap ! todo)))
   \<and> completeTodo (completeTodo e) = completeTodo e"
  by (simp add: completeTodo_def completeTodo_heap_def update_conv' update_twice nth_append)

theorem completeTodo_new_record_idempotent_witness:
  "''title'' \<noteq> ''completed''
   \<and> map_of (own_props (completeTodo
         (JObj [(''id'', JStr ''u1''), (''title'', JStr ''Buy milk''),
                (''completed'', JBool False)]))) ''title'' = Some (JStr ''Buy milk'')
   \<and> (0::nat) < length [JObj [(''id'', JStr ''u1''), (''title'', JStr ''Buy milk''),
                               (''completed'', JBool False)]]
   \<and> completeTodo_heap
         [JObj [(''id'', JStr ''u1''), (''title'', JStr ''Buy milk''),
                (''completed'', JBool False)]] 0
       = ([JObj [(''id'', JStr ''u1''), (''title'', JStr ''Buy milk''),
                 (''completed'', JBool False)],
           JObj [(''id'', JStr ''u1''), (''title'', JStr ''Buy milk''),
                 (''completed'', JBool True)]], 1)"
proof -
  let ?e = "JObj [(''id'', JStr ''u1''), (''title'', JStr ''Buy milk''),
                  (''completed'', JBool False)]"
  have h1: "''title'' \<noteq> ''completed''" by simp
  have h2: "(0::nat) < length [?e]" by simp
  from completeTodo_new_record_idempotent [of ?e "''title''" 0 "[?e]"] h1 h2
  show ?thesis by (simp add: completeTodo_heap_def completeTodo_def)
qed

text \<open>
  C10.  A \<open>/complete\<close> request whose \<open>id\<close> is a key \<open>k\<close> the store does not hold, with a
  transaction that commits: the update is fulfilled, the store holds the new record
  \<open>{ completed: true }\<close> under \<open>k\<close>, a record with no \<open>id\<close> and no \<open>title\<close>, and every other key
  holds what it held.
\<close>

theorem complete_missing_key_inserts_record:
  "pathname request = ''/complete'' \<Longrightarrow> map_of (searchParams request) ''id'' = Some k \<Longrightarrow>
   map_of (db w) k = None \<Longrightarrow> tx_commits e \<Longrightarrow>
   (case fetch_listener e request w of
      (h, w') \<Rightarrow>
        waited h = Some (Inr ())
        \<and> db w' = store_put k (JObj [(''completed'', JBool True)]) (db w)
        \<and> map_of (db w') k = Some (JObj [(''completed'', JBool True)])
        \<and> db w' \<noteq> db w
        \<and> (\<forall>j. j \<noteq> k \<longrightarrow> map_of (db w') j = map_of (db w) j))"
  by (simp add: fetch_listener_def update_db_def store_get_def completeTodo_def
      map_of_store_put store_put_changes)

theorem complete_missing_key_inserts_record_witness:
  "pathname \<lparr>req_method = ''GET'', pathname = ''/complete'', searchParams = [(''id'', ''k9'')],
             body_params = [], req_headers = []\<rparr> = ''/complete''
   \<and> map_of (searchParams \<lparr>req_method = ''GET'', pathname = ''/complete'',
                searchParams = [(''id'', ''k9'')], body_params = [], req_headers = []\<rparr>) ''id'' = Some ''k9''
   \<and> map_of (db \<lparr>db = [], caches = [], fetched = []\<rparr>) ''k9'' = None
   \<and> tx_commits \<lparr>network = (\<lambda>r. Inl NetworkError), tx_commits = True, randomUUID = ''u1''\<rparr>
   \<and> db (snd (fetch_listener
        \<lparr>network = (\<lambda>r. Inl NetworkError), tx_commits = True, randomUUID = ''u1''\<rparr>
        \<lparr>req_method = ''GET'', pathname = ''/complete'', searchParams = [(''id'', ''k9'')],
          body_params = [], req_headers = []\<rparr>
        \<lparr>db = [], caches = [], fetched = []\<rparr>))
       = [(''k9'', JObj [(''completed'', JBool True)])]"
proof -
  let ?e = "\<lparr>network = (\<lambda>r. Inl NetworkError), tx_commits = True, randomUUID = ''u1''\<rparr>"
  let ?r = "\<lparr>req_method = ''GET'', pathname = ''/complete'', searchParams = [(''id'', ''k9'')],
             body_params = [], req_headers = []\<rparr>"
  let ?w = "\<lparr>db = [], caches = [], fetched = []\<rparr>"
  have h1: "pathname ?r = ''/complete''" by simp
  have h2: "map_of (searchParams ?r) ''id'' = Some ''k9''" by simp
  have h3: "map_of (db ?w) ''k9'' = None" by simp
  have h4: "tx_commits ?e" by simp
  from complete_missing_key_inserts_record [OF h1 h2 h3 h4]
  show ?thesis by (simp split: prod.splits)
qed

section \<open>The router's mutation paths\<close>

text \<open>
  C4.  For a request to \<open>/create\<close>, \<open>/delete\<close> or \<open>/complete\<close> the listener responds with the
  303 redirect to \<open>/\<close>, whatever the environment, the state and the request are otherwise:
  the response does not depend on the outcome of the storage operation, which is only
  handed to \<open>waitUntil\<close> and may be fulfilled or rejected.
\<close>

theorem mutation_paths_redirect_whatever_storage_does:
  "pathname request \<in> {''/create'', ''/delete'', ''/complete''} \<Longrightarrow>
   responded (fst (fetch_listener e request w))
     = Some (Inr \<lparr>status = 303, statusText = [], headers = [(''location'', ''/'')], body = []\<rparr>)
   \<and> waited (fst (fetch_listener e request w)) \<noteq> None
   \<and> responded (fst (fetch_listener (e\<lparr>tx_commits := True\<rparr>) request w))
       = responded (fst (fetch_listener (e\<lparr>tx_commits := False\<rparr>) request w))"
  by (auto simp: fetch_listener_def redirect_def split: prod.splits)

theorem mutation_paths_redirect_whatever_storage_does_witness:
  "pathname \<lparr>req_method = ''GET'', pathname = ''/delete'', searchParams = [(''id'', ''a'')],
             body_params = [], req_headers = []\<rparr> \<in> {''/create'', ''/delete'', ''/complete''}
   \<and> fst (fetch_listener
        \<lparr>network = (\<lambda>r. Inl NetworkError), tx_commits = False, randomUUID = ''u1''\<rparr>
        \<lparr>req_method = ''GET'', pathname = ''/delete'', searchParams = [(''id'', ''a'')],
          body_params = [], req_headers = []\<rparr>
        \<lparr>db = [(''a'', JBool True)], caches = [], fetched = []\<rparr>)
       = \<lparr>responded = Some (Inr \<lparr>status = 303, statusText = [],
                                  headers = [(''location'', ''/'')], body = []\<rparr>),
          waited = Some (Inl TransactionError)\<rparr>
   \<and> fst (fetch_listener
        \<lparr>network = (\<lambda>r. Inl NetworkError), tx_commits = True, randomUUID = ''u1''\<rparr>
        \<lparr>req_method = ''GET'', pathname = ''/delete'', searchParams = [(''id'', ''a'')],
          body_params = [], req_headers = []\<rparr>
        \<lparr>db = [(''a'', JBool True)], caches = [], fetched = []\<rparr>)
       = \<lparr>responded = Some (Inr \<lparr>status = 303, statusText = [],
                                  headers = [(''location'', ''/'')], body = []\<rparr>),
          waited = Some (Inr ())\<rparr>"
proof -
  let ?r = "\<lparr>req_method = ''GET'', pathname = ''/delete'', searchParams = [(''id'', ''a'')],
             body_params = [], req_headers = []\<rparr>"
  have h: "pathname ?r \<in> {''/create'', ''/delete'', ''/complete''}" by simp
  from mutation_paths_redirect_whatever_storage_does [OF h] h
  show ?thesis by (simp add: fetch_listener_def del_def redirect_def)
qed

text \<open>
  C9, as the specification states it, fails: a \<open>/create\<close> request whose body has no field at
  all, hence no \<open>title\<close> field, makes the promise chain throw a \<open>TypeError\<close>, and no todo is
  persisted.
\<close>

theorem create_empty_body_rejects:
  "map_of ([] :: (string \<times> string) list) ''title'' = None
   \<and> fetch_listener
        \<lparr>network = (\<lambda>r. Inl NetworkError), tx_commits = True, randomUUID = ''u1''\<rparr>
        \<lparr>req_method = ''POST'', pathname = ''/create'', searchParams = [], body_params = [], req_headers = []\<rparr>
        \<lparr>db = [], caches = [], fetched = []\<rparr>
       = (\<lparr>responded = Some (redirect ''/''), waited = Some (Inl TypeError)\<rparr>,
          \<lparr>db = [], caches = [], fetched = []\<rparr>)"
  by (simp add: fetch_listener_def create_chain_def)

text \<open>
  C9, amended.  A \<open>/create\<close> request whose body has at least one field, named \<open>title\<close> or not,
  is processed without any validation: with a transaction that commits, the chain is
  fulfilled and the store holds, under the fresh identifier, the todo whose title is the
  escaped value of the first field, not completed.
\<close>

theorem create_persists_first_field:
  "pathname request = ''/create'' \<Longrightarrow> body_params request = (name, v) # rest \<Longrightarrow>
   tx_commits e \<Longrightarrow>
   fetch_listener e request w
     = (\<lparr>responded = Some (redirect ''/''), waited = Some (Inr ())\<rparr>,
        w\<lparr>db := store_put (randomUUID e)
                 (JObj [(''id'', JStr (randomUUID e)), (''title'', JStr (escapeHtml v)),
                        (''completed'', JBool False)])
                 (db w)\<rparr>)"
  by (simp add: fetch_listener_def create_chain_def createTodo_def set_db_def Let_def)

theorem create_persists_first_field_witness:
  "pathname \<lparr>req_method = ''POST'', pathname = ''/create'', searchParams = [],
             body_params = [(''note'', ''a<b'')], req_headers = []\<rparr> = ''/create''
   \<and> map_of (body_params \<lparr>req_method = ''POST'', pathname = ''/create'', searchParams = [],
                body_params = [(''note'', ''a<b'')], req_headers = []\<rparr>) ''title'' = None
   \<and> tx_commits \<lparr>network = (\<lambda>r. Inl NetworkError), tx_commits = True, randomUUID = ''u1''\<rparr>
   \<and> db (snd (fetch_listener
        \<lparr>network = (\<lambda>r. Inl NetworkError), tx_commits = True, randomUUID = ''u1''\<rparr>
        \<lparr>req_method = ''POST'', pathname = ''/create'', searchParams = [],
          body_params = [(''note'', ''a<b'')], req_headers = []\<rparr>
        \<lparr>db = [], caches = [], fetched = []\<rparr>))
       = [(''u1'', JObj [(''id'', JStr ''u1''), (''title'', JStr ''a&lt;b''),
                         (''completed'', JBool False)])]"
proof -
  let ?e = "\<lparr>network = (\<lambda>r. Inl NetworkError), tx_commits = True, randomUUID = ''u1''\<rparr>"
  let ?r = "\<lparr>req_method = ''POST'', pathname = ''/create'', searchParams = [],
             body_params = [(''note'', ''a<b'')], req_headers = []\<rparr>"
  have h1: "pathname ?r = ''/create''" by simp
  have h2: "body_params ?r = (''note'', ''a<b'') # []" by simp
  have h3: "tx_commits ?e" by simp
  have esc: "escapeHtml ''a<b'' = ''a&lt;b''"
    by (simp add: escapeHtml_def escape_char_def escape_class_def entity_of_def ENTITY_MAP_def)
  from create_persists_first_field [OF h1 h2 h3, of "\<lparr>db = [], caches = [], fetched = []\<rparr>"]
  show ?thesis by (simp add: esc)
qed

section \<open>Activation\<close>

lemma fold_caches_delete:
  "fold caches_delete names cs = filter (\<lambda>p. fst p \<notin> set names) cs"
  by (induction names arbitrary: cs) (auto simp: caches_delete_def intro: filter_cong)

lemma cleanCache_caches:
  "caches (snd (cleanCache w)) = filter (\<lambda>p. fst p = STATIC_CACHE_NAME) (caches w)"
proof -
  have "fold caches_delete
          (filter (\<lambda>key. key \<noteq> STATIC_CACHE_NAME) (caches_keys (caches w))) (caches w)
        = filter (\<lambda>p. fst p = STATIC_CACHE_NAME) (caches w)"
    unfolding fold_caches_delete caches_keys_def by (rule filter_cong) auto
  then show ?thesis by (simp add: cleanCache_def)
qed

lemma cleanCache_keeps_current_only:
  "caches_keys (caches (snd (cleanCache w)))
     = filter (\<lambda>key. key = STATIC_CACHE_NAME) (caches_keys (caches w))"
  by (simp add: cleanCache_caches caches_keys_def filter_map o_def)

lemma activate_listener_changes_nothing: "activate_listener w = (Inr (), w)"
  by (simp add: activate_listener_def)

text \<open>
  C6.  The \<open>activate\<close> listener hands \<open>waitUntil\<close> the arrow function, not the promise of a
  call to it, so \<open>cleanCache\<close> never runs: with an older generation \<open>static-cache_0.0.0\<close> beside
  the current one, both are still there after activation.  \<open>cleanCache\<close> itself, had it been
  called, leaves the current generation only.
\<close>

theorem activate_leaves_stale_generation:
  "caches_keys (caches (snd (activate_listener
      \<lparr>db = [], caches = [(''static-cache_0.0.0'', []), (''static-cache_0.0.1'', [])],
        fetched = []\<rparr>)))
     = [''static-cache_0.0.0'', ''static-cache_0.0.1'']
   \<and> caches_keys (caches (snd (cleanCache
      \<lparr>db = [], caches = [(''static-cache_0.0.0'', []), (''static-cache_0.0.1'', [])],
        fetched = []\<rparr>)))
     = [STATIC_CACHE_NAME]"
  by (simp add: activate_listener_def caches_keys_def cleanCache_def caches_delete_def
      STATIC_CACHE_NAME_def VERSION_def)

section \<open>Serving from the cache\<close>

lemma cache_match_GET: "cache_match c q = Some r \<Longrightarrow> req_method q = ''GET''"
  by (auto simp: cache_match_def request_matches_def find_Some_iff)

lemma caches_match_GET: "caches_match cs q = Some r \<Longrightarrow> req_method q = ''GET''"
  by (induction cs q rule: caches_match.induct)
     (auto split: option.splits dest: cache_match_GET)

lemma find_append_miss: "find P xs = None \<Longrightarrow> find P (xs @ ys) = find P ys"
  by (induction xs) (auto split: if_splits)

lemma request_matches_itself:
  "req_method r = ''GET'' \<Longrightarrow> ''*'' \<notin> set (vary_fields (headers res)) \<Longrightarrow>
   request_matches r (r, res)"
  by (auto simp: request_matches_def list_all_iff)

lemma cache_put_accepted:
  assumes "req_method r = ''GET''" and "status res \<noteq> 206"
    and "''*'' \<notin> set (vary_fields (headers res))"
  shows "\<exists>c'. cache_put r res c = Inr c' \<and> (r, res) \<in> set c' \<and> cache_match c' r = Some res"
proof -
  let ?c = "filter (\<lambda>entry. \<not> request_matches r entry) c @ [(r, res)]"
  have put: "cache_put r res c = Inr ?c"
    using assms by (simp add: cache_put_def)
  have "find (request_matches r) (filter (\<lambda>entry. \<not> request_matches r entry) c) = None"
    by (simp add: find_None_iff)
  then have "find (request_matches r) ?c = find (request_matches r) [(r, res)]"
    by (rule find_append_miss)
  then have "cache_match ?c r = Some res"
    using request_matches_itself [OF assms(1) assms(3)] by (simp add: cache_match_def)
  with put show ?thesis by simp
qed

lemma caches_open_has: "map_of (caches_open name cs) name \<noteq> None"
  by (auto simp: caches_open_def caches_keys_def map_of_eq_None_iff)

lemma map_entry_opened_others:
  "name' \<noteq> name \<Longrightarrow>
   map_of (AList.map_entry name f (caches_open name cs)) name' = map_of cs name'"
  by (simp add: map_of_map_entry caches_open_def map_add_def split: option.splits)

text \<open>
  C5, as the specification states it, fails.  A \<open>POST\<close> for \<open>/main.js\<close> that no cache holds
  is fetched and answered, but nothing is stored: the current generation is opened and
  stays empty.  And a \<open>GET\<close> for \<open>/main.js\<close> that the current generation holds is answered
  from the older generation \<open>static-cache_0.0.0\<close> when that one holds it too.
\<close>

theorem respondWithCache_post_not_stored_stale_served:
  "respondWithCache
      \<lparr>network = (\<lambda>r. Inr \<lparr>status = 200, statusText = ''OK'', headers = [], body = ''js''\<rparr>),
        tx_commits = True, randomUUID = ''u1''\<rparr>
      \<lparr>req_method = ''POST'', pathname = ''/main.js'', searchParams = [], body_params = [],
        req_headers = []\<rparr>
      \<lparr>db = [], caches = [], fetched = []\<rparr>
     = (Inr \<lparr>status = 200, statusText = ''OK'', headers = [], body = ''js''\<rparr>,
        \<lparr>db = [], caches = [(''static-cache_0.0.1'', [])],
          fetched = [\<lparr>req_method = ''POST'', pathname = ''/main.js'', searchParams = [],
                       body_params = [], req_headers = []\<rparr>]\<rparr>)
   \<and> respondWithCache
        \<lparr>network = (\<lambda>r. Inr \<lparr>status = 200, statusText = ''OK'', headers = [], body = ''js''\<rparr>),
          tx_commits = True, randomUUID = ''u1''\<rparr>
        \<lparr>req_method = ''GET'', pathname = ''/main.js'', searchParams = [], body_params = [],
          req_headers = []\<rparr>
        \<lparr>db = [],
          caches =
            [(''static-cache_0.0.0'',
              [(\<lparr>req_method = ''GET'', pathname = ''/main.js'', searchParams = [],
                  body_params = [], req_headers = []\<rparr>,
                \<lparr>status = 200, statusText = ''OK'', headers = [], body = ''old''\<rparr>)]),
             (''static-cache_0.0.1'',
              [(\<lparr>req_method = ''GET'', pathname = ''/main.js'', searchParams = [],
                  body_params = [], req_headers = []\<rparr>,
                \<lparr>status = 200, statusText = ''OK'', headers = [], body = ''new''\<rparr>)])],
          fetched = []\<rparr>
       = (Inr \<lparr>status = 200, statusText = ''OK'', headers = [], body = ''old''\<rparr>,
          \<lparr>db = [],
            caches =
              [(''static-cache_0.0.0'',
                [(\<lparr>req_method = ''GET'', pathname = ''/main.js'', searchParams = [],
                    body_params = [], req_headers = []\<rparr>,
                  \<lparr>status = 200, statusText = ''OK'', headers = [], body = ''old''\<rparr>)]),
               (''static-cache_0.0.1'',
                [(\<lparr>req_method = ''GET'', pathname = ''/main.js'', searchParams = [],
                    body_params = [], req_headers = []\<rparr>,
                  \<lparr>status = 200, statusText = ''OK'', headers = [], body = ''new''\<rparr>)])],
            fetched = []\<rparr>)"
  by (simp add: respondWithCache_def cache_match_def request_matches_def vary_fields_def
      cache_put_def caches_open_def caches_keys_def STATIC_CACHE_NAME_def VERSION_def)

text \<open>
  C5, amended.  A request that \<open>caches.match\<close> finds in some generation, the generations
  asked oldest first, is a \<open>GET\<close> and is answered with the response found; nothing else
  happens: no fetch, no change of any cache.  A request that it finds in no generation,
  and that the network answers, is fetched once and answered with the fetched response;
  the generations other than the current one are what they were; and when the request is
  a \<open>GET\<close> and the response is one that \<open>cache.put\<close> accepts (its status is not 206 and it does
  not vary on \<open>*\<close>), the current generation then holds the fetched response for the request.
\<close>

theorem respondWithCache_found_or_single_fetch:
  "(caches_match (caches w) request = Some cacheRes \<longrightarrow>
      req_method request = ''GET'' \<and> respondWithCache e request w = (Inr cacheRes, w))
   \<and> (caches_match (caches w) request = None \<and> network e request = Inr fetchRes \<longrightarrow>
      (case respondWithCache e request w of
         (r, w') \<Rightarrow>
           r = Inr fetchRes
           \<and> fetched w' = fetched w @ [request]
           \<and> db w' = db w
           \<and> (\<forall>name. name \<noteq> STATIC_CACHE_NAME \<longrightarrow>
                  map_of (caches w') name = map_of (caches w) name)
           \<and> (req_method request = ''GET'' \<and> status fetchRes \<noteq> 206
               \<and> ''*'' \<notin> set (vary_fields (headers fetchRes)) \<longrightarrow>
                 (\<exists>c. map_of (caches w') STATIC_CACHE_NAME = Some c
                      \<and> (request, fetchRes) \<in> set c
                      \<and> cache_match c request = Some fetchRes))))"
proof -
  have hit: "caches_match (caches w) request = Some cacheRes \<longrightarrow>
      req_method request = ''GET'' \<and> respondWithCache e request w = (Inr cacheRes, w)"
    by (auto simp: respondWithCache_def dest: caches_match_GET)
  have stored: "\<exists>c. map_of (AList.map_entry STATIC_CACHE_NAME
                        (\<lambda>cache. case cache_put request fetchRes cache of
                                    Inl err \<Rightarrow> cache | Inr cache' \<Rightarrow> cache')
                        (caches_open STATIC_CACHE_NAME (caches w))) STATIC_CACHE_NAME = Some c
                 \<and> (request, fetchRes) \<in> set c \<and> cache_match c request = Some fetchRes"
    if ok: "req_method request = ''GET''" "status fetchRes \<noteq> 206"
           "''*'' \<notin> set (vary_fields (headers fetchRes))"
  proof -
    obtain c0 where c0:
      "map_of (caches_open STATIC_CACHE_NAME (caches w)) STATIC_CACHE_NAME = Some c0"
      using caches_open_has [of STATIC_CACHE_NAME "caches w"] by auto
    from cache_put_accepted [OF ok, of c0] obtain c' where
      "cache_put request fetchRes c0 = Inr c'" "(request, fetchRes) \<in> set c'"
      "cache_match c' request = Some fetchRes"
      by blast
    with c0 show ?thesis by (simp add: map_of_map_entry)
  qed
  have miss: "caches_match (caches w) request = None \<and> network e request = Inr fetchRes \<longrightarrow>
      (case respondWithCache e request w of
         (r, w') \<Rightarrow>
           r = Inr fetchRes
           \<and> fetched w' = fetched w @ [request]
           \<and> db w' = db w
           \<and> (\<forall>name. name \<noteq> STATIC_CACHE_NAME \<longrightarrow>
                  map_of (caches w') name = map_of (caches w) name)
           \<and> (req_method request = ''GET'' \<and> status fetchRes \<noteq> 206
               \<and> ''*'' \<notin> set (vary_fields (headers fetchRes)) \<longrightarrow>
                 (\<exists>c. map_of (caches w') STATIC_CACHE_NAME = Some c
                      \<and> (request, fetchRes) \<in> set c
                      \<and> cache_match c request = Some fetchRes)))"
    using stored by (simp add: respondWithCache_def map_entry_opened_others)
  from hit miss show ?thesis by (rule conjI)
qed


theorem respondWithCache_found_or_single_fetch_witness:
  "caches_match
      (caches \<lparr>db = [],
         caches = [(''static-cache_0.0.1'',
           [(\<lparr>req_method = ''GET'', pathname = ''/index.html'', searchParams = [],
               body_params = [], req_headers = []\<rparr>,
             \<lparr>status = 200, statusText = ''OK'', headers = [], body = ''shell''\<rparr>)])],
         fetched = []\<rparr>)
      \<lparr>req_method = ''GET'', pathname = ''/index.html'', searchParams = [], body_params = [],
        req_headers = []\<rparr>
     = Some \<lparr>status = 200, statusText = ''OK'', headers = [], body = ''shell''\<rparr>
   \<and> respondWithCache
        \<lparr>network = (\<lambda>r. Inr \<lparr>status = 200, statusText = ''OK'',
                                 headers = [(''vary'', ''Accept-Encoding, Origin'')],
                                 body = ''js''\<rparr>),
          tx_commits = True, randomUUID = ''u1''\<rparr>
        \<lparr>req_method = ''GET'', pathname = ''/index.html'', searchParams = [], body_params = [],
          req_headers = []\<rparr>
        \<lparr>db = [],
          caches = [(''static-cache_0.0.1'',
            [(\<lparr>req_method = ''GET'', pathname = ''/index.html'', searchParams = [],
                body_params = [], req_headers = []\<rparr>,
              \<lparr>status = 200, statusText = ''OK'', headers = [], body = ''shell''\<rparr>)])],
          fetched = []\<rparr>
       = (Inr \<lparr>status = 200, statusText = ''OK'', headers = [], body = ''shell''\<rparr>,
          \<lparr>db = [],
            caches = [(''static-cache_0.0.1'',
              [(\<lparr>req_method = ''GET'', pathname = ''/index.html'', searchParams = [],
                  body_params = [], req_headers = []\<rparr>,
                \<lparr>status = 200, statusText = ''OK'', headers = [], body = ''shell''\<rparr>)])],
            fetched = []\<rparr>)
   \<and> caches_match (caches \<lparr>db = [], caches = [], fetched = []\<rparr>)
        \<lparr>req_method = ''GET'', pathname = ''/main.js'', searchParams = [], body_params = [],
          req_headers = []\<rparr> = None
   \<and> vary_fields [(''vary'', ''Accept-Encoding, Origin'')] = [''accept-encoding'', ''origin'']
   \<and> respondWithCache
        \<lparr>network = (\<lambda>r. Inr \<lparr>status = 200, statusText = ''OK'',
                                 headers = [(''vary'', ''Accept-Encoding, Origin'')],
                                 body = ''js''\<rparr>),
          tx_commits = True, randomUUID = ''u1''\<rparr>
        \<lparr>req_method = ''GET'', pathname = ''/main.js'', searchParams = [], body_params = [],
          req_headers = []\<rparr>
        \<lparr>db = [], caches = [], fetched = []\<rparr>
       = (Inr \<lparr>status = 200, statusText = ''OK'',
               headers = [(''vary'', ''Accept-Encoding, Origin'')], body = ''js''\<rparr>,
          \<lparr>db = [],
            caches = [(''static-cache_0.0.1'',
              [(\<lparr>req_method = ''GET'', pathname = ''/main.js'', searchParams = [],
                  body_params = [], req_headers = []\<rparr>,
                \<lparr>status = 200, statusText = ''OK'',
                  headers = [(''vary'', ''Accept-Encoding, Origin'')], body = ''js''\<rparr>)])],
            fetched = [\<lparr>req_method = ''GET'', pathname = ''/main.js'', searchParams = [],
                         body_params = [], req_headers = []\<rparr>]\<rparr>)"
proof -
  let ?js = "\<lparr>status = 200, statusText = ''OK'',
              headers = [(''vary'', ''Accept-Encoding, Origin'')], body = ''js''\<rparr>"
  let ?e = "\<lparr>network = (\<lambda>r. Inr ?js), tx_commits = True, randomUUID = ''u1''\<rparr>"
  let ?shell = "\<lparr>status = 200, statusText = ''OK'', headers = [], body = ''shell''\<rparr>"
  let ?r1 = "\<lparr>req_method = ''GET'', pathname = ''/index.html'', searchParams = [],
              body_params = [], req_headers = []\<rparr>"
  let ?w1 = "\<lparr>db = [], caches = [(''static-cache_0.0.1'', [(?r1, ?shell)])], fetched = []\<rparr>"
  let ?r2 = "\<lparr>req_method = ''GET'', pathname = ''/main.js'', searchParams = [],
              body_params = [], req_headers = []\<rparr>"
  let ?w2 = "\<lparr>db = [], caches = [], fetched = []\<rparr>"
  have vary: "vary_fields [(''vary'', ''Accept-Encoding, Origin'')]
              = [''accept-encoding'', ''origin'']"
    by code_simp
  have hit: "caches_match (caches ?w1) ?r1 = Some ?shell"
    by (simp add: cache_match_def request_matches_def vary_fields_def)
  have miss: "caches_match (caches ?w2) ?r2 = None"
    by simp
  have a: "respondWithCache ?e ?r1 ?w1 = (Inr ?shell, ?w1)"
    using respondWithCache_found_or_single_fetch [of ?w1 ?r1 ?shell ?e] hit by blast
  have net: "network ?e ?r2 = Inr ?js" by simp
  have "fst (respondWithCache ?e ?r2 ?w2) = Inr ?js"
    using respondWithCache_found_or_single_fetch [of ?w2 ?r2 _ ?e ?js] miss net
    by (simp add: split_beta)
  moreover have "snd (respondWithCache ?e ?r2 ?w2)
           = \<lparr>db = [], caches = [(''static-cache_0.0.1'', [(?r2, ?js)])], fetched = [?r2]\<rparr>"
    by (simp add: respondWithCache_def cache_put_def vary caches_open_def caches_keys_def
        STATIC_CACHE_NAME_def VERSION_def)
  ultimately have b: "respondWithCache ?e ?r2 ?w2
           = (Inr ?js,
              \<lparr>db = [], caches = [(''static-cache_0.0.1'', [(?r2, ?js)])], fetched = [?r2]\<rparr>)"
    by (simp add: prod_eq_iff)
  from hit a miss vary b show ?thesis by (intro conjI)
qed

section \<open>Escaping is a prefix code\<close>

lemma escape_class_iff:
  "c \<in> set escape_class \<longleftrightarrow>
   c = CHR ''&'' \<or> c = CHR ''<'' \<or> c = CHR ''>'' \<or> c = dq \<or> c = sq \<or> c = CHR ''/''
   \<or> c = bt \<or> c = CHR ''=''"
  by (auto simp: escape_class_def)

lemma escape_char_plain: "c \<notin> set escape_class \<Longrightarrow> escape_char c = [c]"
  by (simp add: escape_char_def)

lemma escape_char_entity:
  "(c, r) \<in> set ENTITY_MAP \<Longrightarrow> escape_char c = r"
  by (auto simp: ENTITY_MAP_def escape_char_def escape_class_def entity_of_def)

lemma escape_char_amp: "c \<in> set escape_class \<Longrightarrow> \<exists>r. escape_char c = CHR ''&'' # r"
  by (auto simp: escape_class_iff escape_char_def entity_of_def ENTITY_MAP_def)

lemma escape_char_both:
  "c \<in> set escape_class \<Longrightarrow> d \<in> set escape_class \<Longrightarrow>
   escape_char c @ xs = escape_char d @ ys \<Longrightarrow> c = d \<and> xs = ys"
  unfolding escape_class_iff
  by (elim disjE; simp add: escape_char_def escape_class_def entity_of_def ENTITY_MAP_def)

lemma escape_char_cancel:
  assumes "escape_char c @ xs = escape_char d @ ys"
  shows "c = d \<and> xs = ys"
proof (cases "c \<in> set escape_class")
  case c: True
  show ?thesis
  proof (cases "d \<in> set escape_class")
    case True
    show ?thesis by (rule escape_char_both [OF c True assms])
  next
    case False
    from c obtain r where "escape_char c = CHR ''&'' # r" using escape_char_amp by blast
    with assms False have "d = CHR ''&''" by (simp add: escape_char_plain)
    with False show ?thesis by (simp add: escape_class_iff)
  qed
next
  case c: False
  show ?thesis
  proof (cases "d \<in> set escape_class")
    case True
    then obtain r where "escape_char d = CHR ''&'' # r" using escape_char_amp by blast
    with assms c have "c = CHR ''&''" by (simp add: escape_char_plain)
    with c show ?thesis by (simp add: escape_class_iff)
  next
    case False
    with c assms show ?thesis by (simp add: escape_char_plain)
  qed
qed

lemma escape_char_nonempty: "escape_char c \<noteq> []"
  by (cases "c \<in> set escape_class")
     (auto simp: escape_char_plain dest: escape_char_amp)

lemma escapeHtml_Nil: "escapeHtml [] = []"
  by (simp add: escapeHtml_def)

lemma escapeHtml_Cons: "escapeHtml (c # s) = escape_char c @ escapeHtml s"
  by (simp add: escapeHtml_def)

lemma escapeHtml_append: "escapeHtml (s @ t) = escapeHtml s @ escapeHtml t"
  by (simp add: escapeHtml_def)

lemma escapeHtml_inject: "escapeHtml s = escapeHtml t \<Longrightarrow> s = t"
proof (induction s arbitrary: t)
  case Nil
  then show ?case
    by (cases t) (simp_all add: escapeHtml_Nil escapeHtml_Cons escape_char_nonempty)
next
  case (Cons c s)
  show ?case
  proof (cases t)
    case Nil
    with Cons.prems show ?thesis
      by (simp add: escapeHtml_Nil escapeHtml_Cons escape_char_nonempty)
  next
    case (Cons d u)
    with Cons.prems have "escape_char c @ escapeHtml s = escape_char d @ escapeHtml u"
      by (simp add: escapeHtml_Cons)
    then have "c = d \<and> escapeHtml s = escapeHtml u" by (rule escape_char_cancel)
    with Cons.IH Cons show ?thesis by simp
  qed
qed

lemma escapeHtml_plain: "set s \<inter> set escape_class = {} \<Longrightarrow> escapeHtml s = s"
  by (induction s) (simp_all add: escapeHtml_Nil escapeHtml_Cons escape_char_plain)

text \<open>
  C7.  The characters \<open>escapeHtml\<close> replaces are exactly the eight of the table; each
  occurrence of one of them becomes its character reference and every other character is
  kept; a string with none of them is returned as it is; and two strings with the same
  escaped text are equal, on the eight characters as on all others.
\<close>

theorem escapeHtml_replaces_fixed_set_injectively:
  "set escape_class = fst ` set ENTITY_MAP
   \<and> set escape_class
       = {CHR ''&'', CHR ''<'', CHR ''>'', dq, sq, CHR ''/'', bt, CHR ''=''}
   \<and> ((c, r) \<in> set ENTITY_MAP \<longrightarrow>
        escapeHtml (s @ c # t) = escapeHtml s @ r @ escapeHtml t)
   \<and> (c \<notin> set escape_class \<longrightarrow> escapeHtml (s @ c # t) = escapeHtml s @ c # escapeHtml t)
   \<and> (set s \<inter> set escape_class = {} \<longrightarrow> escapeHtml s = s)
   \<and> (escapeHtml s = escapeHtml t \<longrightarrow> s = t)"
proof -
  have a: "set escape_class = fst ` set ENTITY_MAP"
    by (simp add: escape_class_def ENTITY_MAP_def insert_commute)
  have b: "set escape_class
       = {CHR ''&'', CHR ''<'', CHR ''>'', dq, sq, CHR ''/'', bt, CHR ''=''}"
    by (simp add: escape_class_def insert_commute)
  have c: "(c, r) \<in> set ENTITY_MAP \<longrightarrow>
        escapeHtml (s @ c # t) = escapeHtml s @ r @ escapeHtml t"
    by (simp add: escapeHtml_append escapeHtml_Cons escape_char_entity)
  have d: "c \<notin> set escape_class \<longrightarrow>
        escapeHtml (s @ c # t) = escapeHtml s @ c # escapeHtml t"
    by (simp add: escapeHtml_append escapeHtml_Cons escape_char_plain)
  have e: "set s \<inter> set escape_class = {} \<longrightarrow> escapeHtml s = s"
    using escapeHtml_plain by blast
  have f: "escapeHtml s = escapeHtml t \<longrightarrow> s = t"
    using escapeHtml_inject by blast
  from a b c d e f show ?thesis by (intro conjI)
qed

theorem escapeHtml_replaces_fixed_set_injectively_witness:
  "(CHR ''<'', ''&lt;'') \<in> set ENTITY_MAP
   \<and> escapeHtml (''a'' @ CHR ''<'' # ''b=c'') = ''a&lt;b&#x3D;c''
   \<and> CHR ''a'' \<notin> set escape_class
   \<and> set ''a b;c'' \<inter> set escape_class = {}
   \<and> escapeHtml ''a b;c'' = ''a b;c''
   \<and> escapeHtml ''&amp;'' \<noteq> escapeHtml ''&''"
proof -
  have h1: "(CHR ''<'', ''&lt;'') \<in> set ENTITY_MAP" by (simp add: ENTITY_MAP_def)
  have h2: "CHR ''a'' \<notin> set escape_class" by (simp add: escape_class_def)
  have h3: "set ''a b;c'' \<inter> set escape_class = {}" by (simp add: escape_class_def)
  have h4: "''&amp;'' \<noteq> ''&''" by simp
  have e: "escapeHtml ''b=c'' = ''b&#x3D;c''" "escapeHtml ''a'' = ''a''"
    by (simp_all add: escapeHtml_def escape_char_def escape_class_def entity_of_def
        ENTITY_MAP_def)
  from escapeHtml_replaces_fixed_set_injectively
         [of "CHR ''<''" "''&lt;''" "''a''" "''b=c''"] h1
  have a: "escapeHtml (''a'' @ CHR ''<'' # ''b=c'') = ''a&lt;b&#x3D;c''"
    by (simp add: e)
  from escapeHtml_replaces_fixed_set_injectively [of _ _ "''a b;c''"] h3
  have b: "escapeHtml ''a b;c'' = ''a b;c''" by blast
  from escapeHtml_replaces_fixed_set_injectively [of _ _ "''&amp;''" "''&''"] h4
  have c: "escapeHtml ''&amp;'' \<noteq> escapeHtml ''&''" by blast
  from h1 h2 h3 a b c show ?thesis by blast
qed

section \<open>Splitting at the marker\<close>

lemma split_from_no_occurrence:
  "\<not> sublist sep s \<Longrightarrow> split_from sep acc s = [acc @ s]"
  by (induction s arbitrary: acc) (auto simp: sublist_Cons_right)

lemma prefix_nth: "prefix xs ys \<Longrightarrow> n < length xs \<Longrightarrow> ys ! n = xs ! n"
  by (auto simp: prefix_def nth_append)

lemma lazyBoundary_length: "length lazyBoundary = 13"
  by (simp add: lazyBoundary_def)

lemma lazyBoundary_inner: "0 < n \<Longrightarrow> n < 13 \<Longrightarrow> lazyBoundary ! n \<noteq> CHR ''<''"
proof -
  assume n: "0 < n" "n < 13"
  have "CHR ''<'' \<notin> set (tl lazyBoundary)" by (simp add: lazyBoundary_def)
  moreover have "tl lazyBoundary ! (n - 1) \<in> set (tl lazyBoundary)"
    using n by (intro nth_mem) (simp add: lazyBoundary_length)
  moreover have "tl lazyBoundary ! (n - 1) = lazyBoundary ! n"
    using n by (simp add: nth_tl lazyBoundary_length)
  ultimately show ?thesis by metis
qed

text \<open>The marker does not overlap itself: no occurrence starts in a text free of it.\<close>

lemma lazyBoundary_no_overlap:
  assumes "H \<noteq> []" and "\<not> sublist lazyBoundary H"
  shows "\<not> prefix lazyBoundary (H @ lazyBoundary @ T)"
proof
  assume p: "prefix lazyBoundary (H @ lazyBoundary @ T)"
  show False
  proof (cases "length H < 13")
    case True
    from p True have "(H @ lazyBoundary @ T) ! length H = lazyBoundary ! length H"
      by (intro prefix_nth) (simp_all add: lazyBoundary_length)
    moreover have "(H @ lazyBoundary @ T) ! length H = CHR ''<''"
      by (simp add: nth_append lazyBoundary_def)
    ultimately show False
      using lazyBoundary_inner [of "length H"] True assms(1) by simp
  next
    case False
    with p have "prefix lazyBoundary H"
      by (simp add: prefix_append lazyBoundary_length prefix_def)
         (metis append_eq_append_conv_if lazyBoundary_length linorder_not_less
           append_take_drop_id)
    then have "sublist lazyBoundary H" by (rule prefix_imp_sublist)
    with assms(2) show False by simp
  qed
qed

lemma split_from_at_marker:
  "split_from lazyBoundary acc (lazyBoundary @ T) = acc # split_from lazyBoundary [] T"
  by (simp add: lazyBoundary_def)

lemma split_from_first_marker:
  "\<not> sublist lazyBoundary H \<Longrightarrow>
   split_from lazyBoundary acc (H @ lazyBoundary @ T)
     = (acc @ H) # split_from lazyBoundary [] T"
proof (induction H arbitrary: acc)
  case Nil
  then show ?case by (simp add: split_from_at_marker)
next
  case (Cons c H)
  from Cons.prems have rest: "\<not> sublist lazyBoundary H"
    by (simp add: sublist_Cons_right)
  have "\<not> prefix lazyBoundary ((c # H) @ lazyBoundary @ T)"
    using Cons.prems by (intro lazyBoundary_no_overlap) simp_all
  then have "split_from lazyBoundary acc ((c # H) @ lazyBoundary @ T)
             = split_from lazyBoundary (acc @ [c]) (H @ lazyBoundary @ T)"
    by simp
  also have "\<dots> = ((acc @ [c]) @ H) # split_from lazyBoundary [] T"
    using rest by (rule Cons.IH)
  finally show ?case by simp
qed

lemma split_js_single_marker:
  "\<not> sublist lazyBoundary H \<Longrightarrow> \<not> sublist lazyBoundary T \<Longrightarrow>
   split_js lazyBoundary (H @ lazyBoundary @ T) = [H, T]"
  using split_from_first_marker [of H "[]" T] split_from_no_occurrence [of lazyBoundary T "[]"]
  by (simp add: split_js_def lazyBoundary_def)

section \<open>Splicing the list into the shell\<close>

text \<open>
  C2, as the specification states it, fails twice.  A shell without the marker is not
  returned unchanged when there are items, and a shell with the marker is not returned
  unchanged when the item list is empty: an empty array is not absent.
\<close>

theorem splice_changes_shell_without_marker_or_items:
  "spliceResponseWithData ''<p>''
      (Some [JObj [(''id'', JStr ''u1''), (''title'', JStr ''Buy milk''),
                   (''completed'', JBool False)]])
     \<noteq> Inr ''<p>''
   \<and> spliceResponseWithData ''<a><!-- lazy --><b>'' (Some []) \<noteq> Inr ''<a><!-- lazy --><b>''"
  by (simp add: spliceResponseWithData_def generateTodos_def list_html_def split_js_def
      piece_def lazyBoundary_def get_prop_def)

text \<open>
  C2, amended.  When the items are absent (\<open>undefined\<close> or \<open>null\<close>), the shell is returned
  unchanged, whatever it contains: nothing is split and nothing is substituted.
\<close>

theorem splice_absent_items_returns_shell:
  "spliceResponseWithData cachedContent None = Inr cachedContent"
  by (simp add: spliceResponseWithData_def)

text \<open>
  C3, as the specification states it, fails: for the shell \<open><a><!-- lazy --><b>\<close> and one
  entity the result is not \<open><a>\<close>, the rendered list, \<open><b>\<close> put together, because the
  template of the result puts each of the three on a line of its own.
\<close>

theorem splice_example_is_not_plain_concatenation:
  "generateTodos [JObj [(''id'', JStr ''u1''), (''title'', JStr ''Buy milk''),
                        (''completed'', JBool False)]]
     = Inr ([nl] @ ''    <ul slot='' @ [dq] @ ''todo-list'' @ [dq] @ ''>'' @ [nl] @ ''      ''
            @ [nl] @ ''    <li>'' @ [nl] @ ''      <a href='' @ [dq] @ ''/complete?id=u1'' @ [dq]
            @ ''>Complete</a> Buy milk <a href='' @ [dq] @ ''/delete?id=u1'' @ [dq]
            @ ''>Delete</a>'' @ [nl] @ ''    </li>'' @ [nl] @ ''  ''
            @ [nl] @ ''    </ul>'' @ [nl] @ ''  '')
   \<and> spliceResponseWithData ''<a><!-- lazy --><b>''
        (Some [JObj [(''id'', JStr ''u1''), (''title'', JStr ''Buy milk''),
                     (''completed'', JBool False)]])
       \<noteq> Inr (''<a>''
            @ ([nl] @ ''    <ul slot='' @ [dq] @ ''todo-list'' @ [dq] @ ''>'' @ [nl] @ ''      ''
               @ [nl] @ ''    <li>'' @ [nl] @ ''      <a href='' @ [dq] @ ''/complete?id=u1''
               @ [dq] @ ''>Complete</a> Buy milk <a href='' @ [dq] @ ''/delete?id=u1'' @ [dq]
               @ ''>Delete</a>'' @ [nl] @ ''    </li>'' @ [nl] @ ''  ''
               @ [nl] @ ''    </ul>'' @ [nl] @ ''  '')
            @ ''<b>'')"
  by (simp add: spliceResponseWithData_def generateTodos_def list_html_def split_js_def
      piece_def lazyBoundary_def get_prop_def)

text \<open>
  C3, amended.  For a shell \<open>H + "<!-- lazy -->" + T\<close> in which the marker occurs just that
  once (neither \<open>H\<close> nor \<open>T\<close> contains it) and an item list that renders to \<open>todos\<close>, the marker
  is replaced by \<open>todos\<close> and \<open>H\<close> and \<open>T\<close> are kept verbatim, each of the three on a line of its
  own in the template of the result: a line break and four spaces before each, a line
  break and two spaces at the end.
\<close>

theorem splice_replaces_single_marker:
  "\<not> sublist lazyBoundary H \<Longrightarrow> \<not> sublist lazyBoundary T \<Longrightarrow>
   generateTodos items = Inr todos \<Longrightarrow>
   spliceResponseWithData (H @ lazyBoundary @ T) (Some items)
     = Inr ([nl] @ ''    '' @ H @ [nl] @ ''    '' @ todos @ [nl] @ ''    '' @ T @ [nl] @ ''  '')"
  by (simp add: spliceResponseWithData_def split_js_single_marker piece_def)

theorem splice_replaces_single_marker_witness:
  "\<not> sublist lazyBoundary ''<a>'' \<and> \<not> sublist lazyBoundary ''<b>''
   \<and> generateTodos [JObj [(''id'', JStr ''u1''), (''title'', JStr ''Buy milk''),
                          (''completed'', JBool True)]]
       = Inr ([nl] @ ''    <ul slot='' @ [dq] @ ''todo-list'' @ [dq] @ ''>'' @ [nl] @ ''      ''
              @ [nl] @ ''    <li>'' @ [nl] @ ''      <s>Buy milk</s> <a href='' @ [dq]
              @ ''/delete?id=u1'' @ [dq] @ ''>Delete</a>'' @ [nl] @ ''    </li>'' @ [nl] @ ''  ''
              @ [nl] @ ''    </ul>'' @ [nl] @ ''  '')
   \<and> spliceResponseWithData ''<a><!-- lazy --><b>''
        (Some [JObj [(''id'', JStr ''u1''), (''title'', JStr ''Buy milk''),
                     (''completed'', JBool True)]])
       = Inr ([nl] @ ''    <a>'' @ [nl] @ ''    ''
              @ ([nl] @ ''    <ul slot='' @ [dq] @ ''todo-list'' @ [dq] @ ''>'' @ [nl] @ ''      ''
                 @ [nl] @ ''    <li>'' @ [nl] @ ''      <s>Buy milk</s> <a href='' @ [dq]
                 @ ''/delete?id=u1'' @ [dq] @ ''>Delete</a>'' @ [nl] @ ''    </li>'' @ [nl]
                 @ ''  '' @ [nl] @ ''    </ul>'' @ [nl] @ ''  '')
              @ [nl] @ ''    <b>'' @ [nl] @ ''  '')"
proof -
  let ?items = "[JObj [(''id'', JStr ''u1''), (''title'', JStr ''Buy milk''),
                       (''completed'', JBool True)]]"
  let ?todos = "[nl] @ ''    <ul slot='' @ [dq] @ ''todo-list'' @ [dq] @ ''>'' @ [nl] @ ''      ''
              @ [nl] @ ''    <li>'' @ [nl] @ ''      <s>Buy milk</s> <a href='' @ [dq]
              @ ''/delete?id=u1'' @ [dq] @ ''>Delete</a>'' @ [nl] @ ''    </li>'' @ [nl] @ ''  ''
              @ [nl] @ ''    </ul>'' @ [nl] @ ''  ''"
  have h1: "\<not> sublist lazyBoundary ''<a>''"
    by (simp add: lazyBoundary_def sublist_Cons_right)
  have h2: "\<not> sublist lazyBoundary ''<b>''"
    by (simp add: lazyBoundary_def sublist_Cons_right)
  have h3: "generateTodos ?items = Inr ?todos"
    by (simp add: generateTodos_def list_html_def get_prop_def)
  have shell: "''<a><!-- lazy --><b>'' = ''<a>'' @ lazyBoundary @ ''<b>''"
    by (simp add: lazyBoundary_def)
  have "spliceResponseWithData (''<a>'' @ lazyBoundary @ ''<b>'') (Some ?items)
        = Inr ([nl] @ ''    '' @ ''<a>'' @ [nl] @ ''    '' @ ?todos @ [nl] @ ''    '' @ ''<b>''
               @ [nl] @ ''  '')"
    using h1 h2 h3 by (rule splice_replaces_single_marker)
  then have r: "spliceResponseWithData ''<a><!-- lazy --><b>'' (Some ?items)
        = Inr ([nl] @ ''    <a>'' @ [nl] @ ''    '' @ ?todos @ [nl] @ ''    <b>'' @ [nl] @ ''  '')"
    unfolding shell [symmetric] by simp
  from h1 h2 h3 r show ?thesis by (intro conjI)
qed

end
